theory Spec2Isabelle
  imports Main "HOL-Library.Word"
begin

unbundle bit_operations_syntax

section \<open>Data model of smc.h\<close>

text \<open>
  The declarations are those of src/smc.h. src/internal/app/smc.c includes the \<open>smc.h\<close>
  of its own directory, which is not among the sources; it is read against the same types
  and constants (the interface table of the specification lists the same fields and the
  command selectors 5, 8 and 9).

  C scalars are words of their width. \<open>char\<close> is a signed 8-bit type on the Apple ABIs
  (the only targets that provide IOKit), so a \<open>char\<close> widens to \<open>int\<close> by sign
  extension (\<open>scast\<close>) and an \<open>unsigned char\<close> by zero extension (\<open>ucast\<close>).
  Text (\<open>const char *\<close>, \<open>char *\<close>) is a \<open>string\<close>: the characters before the
  terminating NUL, or the contents of a character buffer.
\<close>

type_synonym c_char = "8 word"
type_synonym c_ushort = "16 word"
type_synonym c_int = "32 word"
type_synonym c_uint = "32 word"
type_synonym kern_return_t = "32 word"
type_synonym mach_port_t = "32 word"
type_synonym io_object_t = "32 word"
type_synonym io_iterator_t = "32 word"
type_synonym io_connect_t = "32 word"
type_synonym CFMutableDictionaryRef = "64 word"

definition KERNEL_INDEX_SMC :: c_int where
  "KERNEL_INDEX_SMC = 2"

definition SMC_CMD_READ_BYTES :: c_int where
  "SMC_CMD_READ_BYTES = 5"

definition SMC_CMD_READ_INDEX :: c_int where
  "SMC_CMD_READ_INDEX = 8"

definition SMC_CMD_READ_KEYINFO :: c_int where
  "SMC_CMD_READ_KEYINFO = 9"

record SMCKeyData_vers_t =
  major :: c_char
  minor :: c_char
  build :: c_char
  reserved :: c_char
  release :: c_ushort

text \<open>The field \<open>length\<close> of the C struct is \<open>length_f\<close> here (\<open>length\<close> is the list function).\<close>

record SMCKeyData_pLimitData_t =
  version :: c_ushort
  length_f :: c_ushort
  cpuPLimit :: c_uint
  gpuPLimit :: c_uint
  memPLimit :: c_uint

record SMCKeyData_keyInfo_t =
  dataSize :: c_uint
  dataType :: c_uint
  dataAttributes :: c_char

text \<open>\<open>typedef char SMCBytes_t[32]\<close>: exactly 32 bytes, by type.\<close>

typedef SMCBytes_t = "{bs :: c_char list. length bs = 32}"
  by (rule exI [of _ "replicate 32 0"]) simp

text \<open>The array after \<open>memset(_, 0, _)\<close>.\<close>

definition zero_SMCBytes_t :: SMCBytes_t where
  "zero_SMCBytes_t = Abs_SMCBytes_t (replicate 32 0)"

text \<open>\<open>b[i]\<close>, for \<open>i < 32\<close>.\<close>

definition byte_at :: "SMCBytes_t \<Rightarrow> nat \<Rightarrow> c_char" where
  "byte_at b i = Rep_SMCBytes_t b ! i"

text \<open>An array from its leading bytes, the rest zero (for writing concrete payloads).\<close>

definition SMCBytes_of :: "c_char list \<Rightarrow> SMCBytes_t" where
  "SMCBytes_of xs = Abs_SMCBytes_t (take 32 xs @ replicate (32 - length xs) 0)"

record SMCKeyData_t =
  key :: c_uint
  vers :: SMCKeyData_vers_t
  pLimitData :: SMCKeyData_pLimitData_t
  keyInfo :: SMCKeyData_keyInfo_t
  result :: c_char
  status :: c_char
  data8 :: c_char
  data32 :: c_uint
  bytes :: SMCBytes_t

text \<open>
  \<open>sizeof(SMCKeyData_t)\<close>: key at 0, vers at 4 (6 bytes), pLimitData at 12 (16 bytes),
  keyInfo at 28 (12 bytes), result, status, data8 at 40..42, data32 at 44, bytes at 48.
\<close>

definition sizeof_SMCKeyData_t :: nat where
  "sizeof_SMCKeyData_t = 80"

text \<open>A \<open>SMCKeyData_t\<close> after \<open>memset(&s, 0, sizeof(SMCKeyData_t))\<close>.\<close>

definition zero_SMCKeyData_t :: SMCKeyData_t where
  "zero_SMCKeyData_t =
     \<lparr>key = 0,
      vers = \<lparr>major = 0, minor = 0, build = 0, reserved = 0, release = 0\<rparr>,
      pLimitData = \<lparr>version = 0, length_f = 0, cpuPLimit = 0, gpuPLimit = 0, memPLimit = 0\<rparr>,
      keyInfo = \<lparr>dataSize = 0, dataType = 0, dataAttributes = 0\<rparr>,
      result = 0, status = 0, data8 = 0, data32 = 0,
      bytes = zero_SMCBytes_t\<rparr>"

section \<open>The IOKit collaborator\<close>

text \<open>
  IOKit is not part of the repository. Its constants and calls are the fields of an
  environment record; \<open>'w\<close> is the state of the operating system, which every call may read
  and change. A call that writes through a pointer takes the pointee's old contents and
  returns the new ones.
\<close>

record 'w IOKit =
  kIOReturnSuccess :: kern_return_t
  kIOMainPortDefault :: mach_port_t
  mach_task_self :: mach_port_t
  IOServiceMatching :: "string \<Rightarrow> 'w \<Rightarrow> CFMutableDictionaryRef \<times> 'w"
  IOServiceGetMatchingServices ::
    "mach_port_t \<Rightarrow> CFMutableDictionaryRef \<Rightarrow> 'w \<Rightarrow> (kern_return_t \<times> io_iterator_t) \<times> 'w"
  IOIteratorNext :: "io_iterator_t \<Rightarrow> 'w \<Rightarrow> io_object_t \<times> 'w"
  IOObjectRelease :: "io_object_t \<Rightarrow> 'w \<Rightarrow> kern_return_t \<times> 'w"
  IOServiceOpen ::
    "io_object_t \<Rightarrow> mach_port_t \<Rightarrow> c_uint \<Rightarrow> io_connect_t \<Rightarrow> 'w \<Rightarrow> (kern_return_t \<times> io_connect_t) \<times> 'w"
  IOServiceClose :: "io_connect_t \<Rightarrow> 'w \<Rightarrow> kern_return_t \<times> 'w"
  IOConnectCallStructMethod ::
    "io_connect_t \<Rightarrow> c_uint \<Rightarrow> SMCKeyData_t \<Rightarrow> nat \<Rightarrow> SMCKeyData_t \<Rightarrow> nat \<Rightarrow> 'w
       \<Rightarrow> (kern_return_t \<times> SMCKeyData_t) \<times> 'w"

section \<open>src/internal/app/smc.c\<close>

text \<open>
  \<open>key[i]\<close> of a C string: a character of the text, or the terminating NUL at
  \<open>i = length s\<close>. Reading further is undefined in C; the callers pass 4-character keys.
\<close>

definition cstr_at :: "string \<Rightarrow> nat \<Rightarrow> c_char" where
  "cstr_at s i = (if i < length s then of_char (s ! i) else 0)"

text \<open>
  Line 62 (and 152): \<open>(key[0] << 24) | (key[1] << 16) | (key[2] << 8) | key[3]\<close>. Each
  \<open>char\<close> is promoted to \<open>int\<close>, the shifts and ORs are 32-bit, and the \<open>int\<close> is stored
  in the \<open>unsigned int\<close> field with the same bits. A left shift is the 32-bit
  two's-complement shift that clang and gcc compile it to, also where the C standard
  leaves a shift of a negative or overflowing \<open>int\<close> undefined.
\<close>

definition pack_key :: "string \<Rightarrow> c_uint" where
  "pack_key k =
     push_bit 24 (scast (cstr_at k 0)) OR push_bit 16 (scast (cstr_at k 1))
       OR push_bit 8 (scast (cstr_at k 2)) OR scast (cstr_at k 3)"

text \<open>
  Lines 134 to 137: the four characters \<open>(key >> 24) & 0xFF\<close>, \<open>(key >> 16) & 0xFF\<close>,
  \<open>(key >> 8) & 0xFF\<close>, \<open>key & 0xFF\<close>, each stored in a \<open>char\<close>.
\<close>

definition unpack_key :: "c_uint \<Rightarrow> string" where
  "unpack_key k =
     [char_of (unat (drop_bit 24 k AND 0xFF)), char_of (unat (drop_bit 16 k AND 0xFF)),
      char_of (unat (drop_bit 8 k AND 0xFF)), char_of (unat (k AND 0xFF))]"

definition SMCOpen :: "'w IOKit \<Rightarrow> 'w \<Rightarrow> io_connect_t \<times> 'w" where
  "SMCOpen io w0 =
     (let conn = 0;
          (matchingDictionary, w1) = IOServiceMatching io ''AppleSMC'' w0;
          ((result, iterator), w2) =
             IOServiceGetMatchingServices io (kIOMainPortDefault io) matchingDictionary w1
      in if result \<noteq> kIOReturnSuccess io then (0, w2)
         else
           let (device, w3) = IOIteratorNext io iterator w2;
               (_, w4) = IOObjectRelease io iterator w3
           in if device = 0 then (0, w4)
              else
                let ((result, conn), w5) = IOServiceOpen io device (mach_task_self io) 0 conn w4;
                    (_, w6) = IOObjectRelease io device w5
                in if result \<noteq> kIOReturnSuccess io then (0, w6) else (conn, w6))"

definition SMCClose :: "'w IOKit \<Rightarrow> io_connect_t \<Rightarrow> 'w \<Rightarrow> kern_return_t \<times> 'w" where
  "SMCClose io conn w = IOServiceClose io conn w"

definition SMCCall ::
  "'w IOKit \<Rightarrow> io_connect_t \<Rightarrow> c_int \<Rightarrow> SMCKeyData_t \<Rightarrow> SMCKeyData_t \<Rightarrow> 'w
     \<Rightarrow> (kern_return_t \<times> SMCKeyData_t) \<times> 'w" where
  "SMCCall io conn index inputStructure outputStructure w =
     (let structureInputSize = sizeof_SMCKeyData_t;
          structureOutputSize = sizeof_SMCKeyData_t
      in IOConnectCallStructMethod io conn index inputStructure structureInputSize
           outputStructure structureOutputSize w)"

text \<open>
  \<open>SMCReadKey\<close> returns its status and the contents of \<open>*val\<close>. Line 60 zeroes \<open>*val\<close>
  before anything else, so its old contents are no input.
\<close>

definition SMCReadKey ::
  "'w IOKit \<Rightarrow> io_connect_t \<Rightarrow> string \<Rightarrow> 'w \<Rightarrow> (kern_return_t \<times> SMCKeyData_t) \<times> 'w" where
  "SMCReadKey io conn ckey w0 =
     (let inputStructure = zero_SMCKeyData_t;
          outputStructure = zero_SMCKeyData_t;
          val = zero_SMCKeyData_t;
          inputStructure = inputStructure\<lparr>key := pack_key ckey\<rparr>;
          inputStructure = inputStructure\<lparr>data8 := ucast SMC_CMD_READ_KEYINFO\<rparr>;
          ((result, outputStructure), w1) =
             SMCCall io conn KERNEL_INDEX_SMC inputStructure outputStructure w0
      in if result \<noteq> kIOReturnSuccess io then ((result, val), w1)
         else
           let val = val\<lparr>keyInfo := (keyInfo val)\<lparr>dataSize := dataSize (keyInfo outputStructure)\<rparr>\<rparr>;
               val = val\<lparr>keyInfo := (keyInfo val)\<lparr>dataType := dataType (keyInfo outputStructure)\<rparr>\<rparr>;
               inputStructure =
                 inputStructure\<lparr>keyInfo := (keyInfo inputStructure)\<lparr>dataSize := dataSize (keyInfo val)\<rparr>\<rparr>;
               inputStructure = inputStructure\<lparr>data8 := ucast SMC_CMD_READ_BYTES\<rparr>;
               ((result, outputStructure), w2) =
                  SMCCall io conn KERNEL_INDEX_SMC inputStructure outputStructure w1
           in if result \<noteq> kIOReturnSuccess io then ((result, val), w2)
              else
                let val = val\<lparr>bytes := bytes outputStructure\<rparr>
                in ((kIOReturnSuccess io, val), w2))"

text \<open>
  The return type \<open>double\<close>. Every value the client returns is \<open>(double)f\<close> for a
  \<open>float f\<close>, and widening a \<open>float\<close> to \<open>double\<close> is exact, so a returned
  \<open>double\<close> is given by the IEEE-754 binary32 bit pattern of the \<open>float\<close> it widens.
  The literal \<open>0.0\<close> is the widening of positive zero, whose pattern is all zero bits.
\<close>

datatype c_double = double_of_float "32 word"

definition double_0 :: c_double where
  "double_0 = double_of_float 0"

text \<open>
  Lines 92 and 93: \<open>float f; memcpy(&f, val.bytes, 4)\<close>. The bit pattern of \<open>f\<close> on the
  little-endian targets: byte 0 is the least significant.
\<close>

definition memcpy_float :: "SMCBytes_t \<Rightarrow> 32 word" where
  "memcpy_float b =
     ucast (byte_at b 0) OR push_bit 8 (ucast (byte_at b 1))
       OR push_bit 16 (ucast (byte_at b 2)) OR push_bit 24 (ucast (byte_at b 3))"

definition SMCGetFloatValue :: "'w IOKit \<Rightarrow> io_connect_t \<Rightarrow> string \<Rightarrow> 'w \<Rightarrow> c_double \<times> 'w" where
  "SMCGetFloatValue io conn ckey w0 =
     (let ((result, val), w1) = SMCReadKey io conn ckey w0
      in if result \<noteq> kIOReturnSuccess io then (double_0, w1)
         else if dataType (keyInfo val) = 1718383648
           then (double_of_float (memcpy_float (bytes val)), w1)
           else (double_0, w1))"

text \<open>
  \<open>SMCGetKeyCount\<close> returns an \<open>int\<close>: the \<open>unsigned int count\<close> converted on return,
  which keeps the 32 bits; \<open>sint\<close> reads the value the caller sees. Each
  \<open>(unsigned char)val.bytes[i]\<close> widens by zero extension, and the shifts are 32-bit
  shifts as in \<open>pack_key\<close>.
\<close>

definition SMCGetKeyCount :: "'w IOKit \<Rightarrow> io_connect_t \<Rightarrow> 'w \<Rightarrow> c_int \<times> 'w" where
  "SMCGetKeyCount io conn w0 =
     (let ((result, val), w1) = SMCReadKey io conn ''#KEY'' w0
      in if result \<noteq> kIOReturnSuccess io then (0, w1)
         else
           let count = (0 :: c_uint);
               count = push_bit 24 (ucast (byte_at (bytes val) 0))
                         OR push_bit 16 (ucast (byte_at (bytes val) 1))
                         OR push_bit 8 (ucast (byte_at (bytes val) 2))
                         OR ucast (byte_at (bytes val) 3)
           in (count, w1))"

text \<open>
  \<open>SMCGetKeyFromIndex\<close> takes the contents of the buffer \<open>outputKey\<close> and returns them
  with the status. A store \<open>outputKey[i] = c\<close> is a list update; the caller's buffer has
  at least 5 characters (a shorter one is overrun in C, and left as it is here).
\<close>

definition SMCGetKeyFromIndex ::
  "'w IOKit \<Rightarrow> io_connect_t \<Rightarrow> c_int \<Rightarrow> string \<Rightarrow> 'w \<Rightarrow> (kern_return_t \<times> string) \<times> 'w" where
  "SMCGetKeyFromIndex io conn index outputKey w0 =
     (let inputStructure = zero_SMCKeyData_t;
          outputStructure = zero_SMCKeyData_t;
          inputStructure = inputStructure\<lparr>data8 := ucast SMC_CMD_READ_INDEX\<rparr>;
          inputStructure = inputStructure\<lparr>data32 := index\<rparr>;
          ((result, outputStructure), w1) =
             SMCCall io conn KERNEL_INDEX_SMC inputStructure outputStructure w0
      in if result \<noteq> kIOReturnSuccess io then ((result, outputKey), w1)
         else
           let ukey = key outputStructure;
               outputKey = outputKey[0 := char_of (unat (drop_bit 24 ukey AND 0xFF))];
               outputKey = outputKey[1 := char_of (unat (drop_bit 16 ukey AND 0xFF))];
               outputKey = outputKey[2 := char_of (unat (drop_bit 8 ukey AND 0xFF))];
               outputKey = outputKey[3 := char_of (unat (ukey AND 0xFF))];
               outputKey = outputKey[4 := CHR 0x00]
           in ((kIOReturnSuccess io, outputKey), w1))"

section \<open>src/smc.c\<close>

text \<open>The second copy of the client, translated from its own text; names end in \<open>_dup\<close>.\<close>

definition SMCOpen_dup :: "'w IOKit \<Rightarrow> 'w \<Rightarrow> io_connect_t \<times> 'w" where
  "SMCOpen_dup io w0 =
     (let conn = 0;
          (matchingDictionary, w1) = IOServiceMatching io ''AppleSMC'' w0;
          ((result, iterator), w2) =
             IOServiceGetMatchingServices io (kIOMainPortDefault io) matchingDictionary w1
      in if result \<noteq> kIOReturnSuccess io then (0, w2)
         else
           let (device, w3) = IOIteratorNext io iterator w2;
               (_, w4) = IOObjectRelease io iterator w3
           in if device = 0 then (0, w4)
              else
                let ((result, conn), w5) = IOServiceOpen io device (mach_task_self io) 0 conn w4;
                    (_, w6) = IOObjectRelease io device w5
                in if result \<noteq> kIOReturnSuccess io then (0, w6) else (conn, w6))"

definition SMCClose_dup :: "'w IOKit \<Rightarrow> io_connect_t \<Rightarrow> 'w \<Rightarrow> kern_return_t \<times> 'w" where
  "SMCClose_dup io conn w = IOServiceClose io conn w"

definition SMCCall_dup ::
  "'w IOKit \<Rightarrow> io_connect_t \<Rightarrow> c_int \<Rightarrow> SMCKeyData_t \<Rightarrow> SMCKeyData_t \<Rightarrow> 'w
     \<Rightarrow> (kern_return_t \<times> SMCKeyData_t) \<times> 'w" where
  "SMCCall_dup io conn index inputStructure outputStructure w =
     (let structureInputSize = sizeof_SMCKeyData_t;
          structureOutputSize = sizeof_SMCKeyData_t
      in IOConnectCallStructMethod io conn index inputStructure structureInputSize
           outputStructure structureOutputSize w)"

definition SMCReadKey_dup ::
  "'w IOKit \<Rightarrow> io_connect_t \<Rightarrow> string \<Rightarrow> 'w \<Rightarrow> (kern_return_t \<times> SMCKeyData_t) \<times> 'w" where
  "SMCReadKey_dup io conn ckey w0 =
     (let inputStructure = zero_SMCKeyData_t;
          outputStructure = zero_SMCKeyData_t;
          val = zero_SMCKeyData_t;
          inputStructure = inputStructure\<lparr>key := pack_key ckey\<rparr>;
          inputStructure = inputStructure\<lparr>data8 := ucast SMC_CMD_READ_KEYINFO\<rparr>;
          ((result, outputStructure), w1) =
             SMCCall_dup io conn KERNEL_INDEX_SMC inputStructure outputStructure w0
      in if result \<noteq> kIOReturnSuccess io then ((result, val), w1)
         else
           let val = val\<lparr>keyInfo := (keyInfo val)\<lparr>dataSize := dataSize (keyInfo outputStructure)\<rparr>\<rparr>;
               val = val\<lparr>keyInfo := (keyInfo val)\<lparr>dataType := dataType (keyInfo outputStructure)\<rparr>\<rparr>;
               inputStructure =
                 inputStructure\<lparr>keyInfo := (keyInfo inputStructure)\<lparr>dataSize := dataSize (keyInfo val)\<rparr>\<rparr>;
               inputStructure = inputStructure\<lparr>data8 := ucast SMC_CMD_READ_BYTES\<rparr>;
               ((result, outputStructure), w2) =
                  SMCCall_dup io conn KERNEL_INDEX_SMC inputStructure outputStructure w1
           in if result \<noteq> kIOReturnSuccess io then ((result, val), w2)
              else
                let val = val\<lparr>bytes := bytes outputStructure\<rparr>
                in ((kIOReturnSuccess io, val), w2))"

definition SMCGetFloatValue_dup :: "'w IOKit \<Rightarrow> io_connect_t \<Rightarrow> string \<Rightarrow> 'w \<Rightarrow> c_double \<times> 'w" where
  "SMCGetFloatValue_dup io conn ckey w0 =
     (let ((result, val), w1) = SMCReadKey_dup io conn ckey w0
      in if result \<noteq> kIOReturnSuccess io then (double_0, w1)
         else if dataType (keyInfo val) = 1718383648
           then (double_of_float (memcpy_float (bytes val)), w1)
           else (double_0, w1))"

section \<open>Collaborators for observing and running the client\<close>

text \<open>
  One exchange as the collaborator sees it: the connection, the selector, the request
  structure, and the contents of the response buffer when the call is made.
\<close>

record smc_call =
  call_conn :: io_connect_t
  call_selector :: c_uint
  call_input :: SMCKeyData_t
  call_output :: SMCKeyData_t

text \<open>
  \<open>spy io\<close> behaves as \<open>io\<close> and keeps, beside the state of \<open>io\<close>, the list of the
  exchanges made through \<open>IOConnectCallStructMethod\<close>, oldest first.
\<close>

definition spy_on :: "('w \<Rightarrow> 'r \<times> 'w) \<Rightarrow> 'w \<times> smc_call list \<Rightarrow> 'r \<times> 'w \<times> smc_call list" where
  "spy_on f = (\<lambda>(w, calls). case f w of (r, w') \<Rightarrow> (r, (w', calls)))"

definition spy :: "'w IOKit \<Rightarrow> ('w \<times> smc_call list) IOKit" where
  "spy io =
     \<lparr>kIOReturnSuccess = kIOReturnSuccess io,
      kIOMainPortDefault = kIOMainPortDefault io,
      mach_task_self = mach_task_self io,
      IOServiceMatching = (\<lambda>name. spy_on (IOServiceMatching io name)),
      IOServiceGetMatchingServices =
        (\<lambda>port dict. spy_on (IOServiceGetMatchingServices io port dict)),
      IOIteratorNext = (\<lambda>it. spy_on (IOIteratorNext io it)),
      IOObjectRelease = (\<lambda>obj. spy_on (IOObjectRelease io obj)),
      IOServiceOpen = (\<lambda>dev task ty conn. spy_on (IOServiceOpen io dev task ty conn)),
      IOServiceClose = (\<lambda>conn. spy_on (IOServiceClose io conn)),
      IOConnectCallStructMethod =
        (\<lambda>conn sel inp isz out osz (w, calls).
           case IOConnectCallStructMethod io conn sel inp isz out osz w of
             (r, w') \<Rightarrow>
               (r, (w', calls @ [\<lparr>call_conn = conn, call_selector = sel,
                                  call_input = inp, call_output = out\<rparr>])))\<rparr>"

text \<open>
  A scripted collaborator: its state is the list of the responses still to give, each a
  status and the contents it leaves in the response buffer. With the script used up, an
  exchange fails with status 1 and leaves the buffer as it is. Service matching answers
  \<open>m\<close>, the iterator yields \<open>d\<close>, and opening a service answers \<open>oc\<close>.
\<close>

definition scripted ::
  "kern_return_t \<Rightarrow> io_object_t \<Rightarrow> kern_return_t \<times> io_connect_t
     \<Rightarrow> ((kern_return_t \<times> SMCKeyData_t) list) IOKit" where
  "scripted m d oc =
     \<lparr>kIOReturnSuccess = 0,
      kIOMainPortDefault = 0,
      mach_task_self = 0x103,
      IOServiceMatching = (\<lambda>name w. (0x1000, w)),
      IOServiceGetMatchingServices = (\<lambda>port dict w. ((m, 0x0B03), w)),
      IOIteratorNext = (\<lambda>it w. (d, w)),
      IOObjectRelease = (\<lambda>obj w. (0, w)),
      IOServiceOpen = (\<lambda>dev task ty conn w. (oc, w)),
      IOServiceClose = (\<lambda>conn w. (0, w)),
      IOConnectCallStructMethod =
        (\<lambda>conn sel inp isz out osz w.
           case w of [] \<Rightarrow> ((1, out), []) | r # rs \<Rightarrow> (r, rs))\<rparr>"

text \<open>
  The contents a response buffer may be left with: the packed key \<open>k\<close>, the key info
  \<open>sz\<close> and \<open>ty\<close>, and the payload starting with the bytes \<open>bs\<close>.
\<close>

definition response :: "c_uint \<Rightarrow> c_uint \<Rightarrow> c_uint \<Rightarrow> c_char list \<Rightarrow> SMCKeyData_t" where
  "response k sz ty bs =
     zero_SMCKeyData_t
       \<lparr>key := k,
        keyInfo := \<lparr>dataSize = sz, dataType = ty, dataAttributes = 0\<rparr>,
        bytes := SMCBytes_of bs\<rparr>"

section \<open>Bytes, characters and words\<close>

lemma Rep_SMCBytes_of:
  "Rep_SMCBytes_t (SMCBytes_of xs) = take 32 xs @ replicate (32 - length xs) 0"
  by (simp add: SMCBytes_of_def Abs_SMCBytes_t_inverse)

lemma Rep_zero_SMCBytes_t: "Rep_SMCBytes_t zero_SMCBytes_t = replicate 32 0"
  by (simp add: zero_SMCBytes_t_def Abs_SMCBytes_t_inverse)

lemma length_Rep_SMCBytes_t: "length (Rep_SMCBytes_t b) = 32"
  using Rep_SMCBytes_t [of b] by simp

lemma unat_byte_lt: "unat (a :: 8 word) < 256"
proof -
  have "unat a < 2 ^ LENGTH(8)" by (rule unsigned_less)
  then show ?thesis by simp
qed

lemma unat_of_char: "unat (of_char c :: 8 word) = of_char c"
proof -
  have "(of_char c :: 8 word) = of_nat (of_char c)"
    by (simp add: of_nat_of_char)
  then have "unat (of_char c :: 8 word) = (of_char c :: nat) mod 256"
    by (simp add: unat_of_nat)
  then show ?thesis by simp
qed

lemma unat_ucast_8_32: "unat (ucast (a :: 8 word) :: 32 word) = unat a"
proof -
  have "unat a < 2 ^ 32"
    using unat_byte_lt [of a] by simp
  then show ?thesis
    by (simp add: unsigned_ucast_eq take_bit_nat_eq_self)
qed

lemma char_of_ucast_of_char: "char_of (unat (ucast (of_char c :: 8 word) :: 32 word)) = c"
  by (simp add: unat_ucast_8_32 unat_of_char)

text \<open>The sign bit of a character is set exactly from code 128 on.\<close>

lemma bit7_of_char: "bit (of_char c :: 8 word) 7 \<longleftrightarrow> 128 \<le> (of_char c :: nat)"
proof -
  have lt: "(of_char c :: nat) < 256"
    using unat_byte_lt [of "of_char c"] by (simp add: unat_of_char)
  have "bit (of_char c :: 8 word) 7 \<longleftrightarrow> bit (unat (of_char c :: 8 word)) 7"
    by (simp add: bit_unsigned_iff)
  also have "\<dots> \<longleftrightarrow> odd ((of_char c :: nat) div 128)"
    by (simp add: unat_of_char bit_iff_odd)
  also have "\<dots> \<longleftrightarrow> 128 \<le> (of_char c :: nat)"
  proof (cases "128 \<le> (of_char c :: nat)")
    case True
    with lt have "(of_char c :: nat) div 128 = 1" by arith
    with True show ?thesis by simp
  next
    case False
    then have "(of_char c :: nat) div 128 = 0" by simp
    with False show ?thesis by simp
  qed
  finally show ?thesis .
qed

text \<open>Promotion of a non-negative \<open>char\<close> is zero extension.\<close>

lemma scast_ascii: "\<not> bit a 7 \<Longrightarrow> (scast (a :: 8 word) :: 32 word) = ucast a"
proof (rule bit_word_eqI)
  fix n assume a7: "\<not> bit a 7" and n: "n < LENGTH(32)"
  have "bit a n \<Longrightarrow> n < 7"
  proof -
    assume b: "bit a n"
    then have "n < 8" using bit_imp_le_length [of a n] by simp
    with a7 b show "n < 7" by (cases "n = 7") auto
  qed
  then show "bit (scast a :: 32 word) n \<longleftrightarrow> bit (ucast a :: 32 word) n"
    using a7 n by (auto simp: bit_simps min_def)
qed

lemma ff_mask: "(0xFF :: 32 word) = mask 8"
  by (simp add: mask_eq_exp_minus_1)

text \<open>The four byte lanes of a big-endian packing of zero-extended bytes.\<close>

lemma lane0:
  fixes a b c d :: "8 word"
  shows "drop_bit 24 (push_bit 24 (ucast a) OR push_bit 16 (ucast b) OR push_bit 8 (ucast c)
           OR ucast d) AND 0xFF = (ucast a :: 32 word)"
  unfolding ff_mask
  by (rule bit_word_eqI) (auto simp: bit_simps dest: bit_imp_le_length)

lemma lane1:
  fixes a b c d :: "8 word"
  shows "drop_bit 16 (push_bit 24 (ucast a) OR push_bit 16 (ucast b) OR push_bit 8 (ucast c)
           OR ucast d) AND 0xFF = (ucast b :: 32 word)"
  unfolding ff_mask
  by (rule bit_word_eqI) (auto simp: bit_simps dest: bit_imp_le_length)

lemma lane2:
  fixes a b c d :: "8 word"
  shows "drop_bit 8 (push_bit 24 (ucast a) OR push_bit 16 (ucast b) OR push_bit 8 (ucast c)
           OR ucast d) AND 0xFF = (ucast c :: 32 word)"
  unfolding ff_mask
  by (rule bit_word_eqI) (auto simp: bit_simps dest: bit_imp_le_length)

lemma lane3:
  fixes a b c d :: "8 word"
  shows "(push_bit 24 (ucast a) OR push_bit 16 (ucast b) OR push_bit 8 (ucast c)
           OR ucast d) AND 0xFF = (ucast d :: 32 word)"
  unfolding ff_mask
  by (rule bit_word_eqI) (auto simp: bit_simps dest: bit_imp_le_length)

text \<open>The character codes that unpacking yields, as arithmetic on the packed value.\<close>

lemma unat_lane: "unat (drop_bit n (k :: 32 word) AND 0xFF) = unat k div 2 ^ n mod 256"
proof -
  have "drop_bit n k AND mask 8 = take_bit 8 (drop_bit n k)"
    by (simp add: take_bit_eq_mask)
  moreover have "take_bit 32 (unat k) = unat k"
  proof -
    have "unat k < 2 ^ LENGTH(32)" by (rule unsigned_less)
    then show ?thesis by (simp add: take_bit_nat_eq_self)
  qed
  ultimately have "unat (drop_bit n k AND mask 8) = take_bit 8 (drop_bit n (unat k))"
    by (simp add: unsigned_take_bit_eq unsigned_drop_bit_eq)
  then show ?thesis
    by (simp add: ff_mask take_bit_eq_mod drop_bit_eq_div)
qed

lemma unpack_key_codes:
  "map of_char (unpack_key k) =
     [unat k div 16777216 mod 256, unat k div 65536 mod 256, unat k div 256 mod 256,
      unat k mod 256 :: nat]"
  using unat_lane [of 24 k] unat_lane [of 16 k] unat_lane [of 8 k] unat_lane [of 0 k]
  by (simp add: unpack_key_def)

text \<open>The lanes do not overlap, so the ORs add up.\<close>

lemma be32_as_sum:
  fixes a b c d :: "8 word"
  shows "(push_bit 24 (ucast a) OR push_bit 16 (ucast b) OR push_bit 8 (ucast c) OR ucast d :: 32 word)
    = push_bit 24 (ucast a) + (push_bit 16 (ucast b) + (push_bit 8 (ucast c) + ucast d))"
proof -
  have 1: "(push_bit 8 (ucast c) + ucast d :: 32 word) = push_bit 8 (ucast c) OR ucast d"
    by (rule disjunctive_add) (auto simp: bit_simps dest: bit_imp_le_length)
  have 2: "(push_bit 16 (ucast b) + (push_bit 8 (ucast c) OR ucast d) :: 32 word)
      = push_bit 16 (ucast b) OR (push_bit 8 (ucast c) OR ucast d)"
    by (rule disjunctive_add) (auto simp: bit_simps dest: bit_imp_le_length)
  have 3: "(push_bit 24 (ucast a) + (push_bit 16 (ucast b) OR (push_bit 8 (ucast c) OR ucast d)) :: 32 word)
      = push_bit 24 (ucast a) OR (push_bit 16 (ucast b) OR (push_bit 8 (ucast c) OR ucast d))"
    by (rule disjunctive_add) (auto simp: bit_simps dest: bit_imp_le_length)
  show ?thesis
    by (simp only: 1 2 3 or.assoc)
qed

lemma unat_be32:
  fixes a b c d :: "8 word"
  shows "unat (push_bit 24 (ucast a) OR push_bit 16 (ucast b) OR push_bit 8 (ucast c) OR ucast d :: 32 word)
    = 16777216 * unat a + 65536 * unat b + 256 * unat c + unat d"
proof -
  let ?n = "16777216 * unat a + 65536 * unat b + 256 * unat c + unat d"
  have "(push_bit 24 (ucast a) + (push_bit 16 (ucast b) + (push_bit 8 (ucast c) + ucast d)) :: 32 word)
      = of_nat ?n"
    by (simp add: push_bit_eq_mult)
  then have "unat (push_bit 24 (ucast a) OR push_bit 16 (ucast b) OR push_bit 8 (ucast c) OR ucast d :: 32 word)
      = ?n mod 2 ^ 32"
    by (simp only: be32_as_sum unat_of_nat len_of_numeral_defs) simp
  moreover have "?n < 2 ^ 32"
    using unat_byte_lt [of a] unat_byte_lt [of b] unat_byte_lt [of c] unat_byte_lt [of d]
    by simp
  ultimately show ?thesis by simp
qed

section \<open>Key packing\<close>

text \<open>
  For a key of four ASCII characters (codes below 128) unpacking the packed key gives the
  key back.
\<close>

lemma unpack_pack_ascii:
  assumes len: "length k = 4" and ascii: "\<forall>c \<in> set k. (of_char c :: nat) < 128"
  shows "unpack_key (pack_key k) = k"
proof -
  from len obtain a b c d where k: "k = [a, b, c, d]"
    by (auto simp: length_Suc_conv numeral_eq_Suc)
  from ascii k have s:
    "(scast (of_char a :: 8 word) :: 32 word) = ucast (of_char a :: 8 word)"
    "(scast (of_char b :: 8 word) :: 32 word) = ucast (of_char b :: 8 word)"
    "(scast (of_char c :: 8 word) :: 32 word) = ucast (of_char c :: 8 word)"
    "(scast (of_char d :: 8 word) :: 32 word) = ucast (of_char d :: 8 word)"
    by (simp_all add: scast_ascii bit7_of_char)
  have p: "pack_key [a, b, c, d] =
      push_bit 24 (ucast (of_char a :: 8 word)) OR push_bit 16 (ucast (of_char b :: 8 word))
        OR push_bit 8 (ucast (of_char c :: 8 word)) OR ucast (of_char d :: 8 word)"
    by (simp add: pack_key_def cstr_at_def s)
  show ?thesis
    by (simp only: unpack_key_def p lane0 lane1 lane2 lane3 char_of_ucast_of_char k)
qed

text \<open>
  C1. Packing a 4-character key as \<open>SMCReadKey\<close> does and unpacking the 32-bit value as
  \<open>SMCGetKeyFromIndex\<close> does is not the identity on every key: a character with code 128
  or more is negative as a \<open>char\<close>, its promotion to \<open>int\<close> sets every higher bit, and the
  OR overwrites the characters before it. For the key \<open>A A A 0x80\<close>, \<open>SMCReadKey\<close> sends
  the packed key \<open>0xFFFFFF80\<close>, which \<open>SMCGetKeyFromIndex\<close> unpacks to
  \<open>0xFF 0xFF 0xFF 0x80\<close>. (\<open>SMCGetKeyCount\<close> packs its bytes through \<open>unsigned char\<close>
  and has no such loss; for ASCII keys the round trip holds, lemma \<open>unpack_pack_ascii\<close>.)
\<close>

theorem pack_key_sign_extends:
  "key (call_input (hd (snd (snd (SMCReadKey (spy (scripted 0 5 (0, 9))) 9
          [CHR ''A'', CHR ''A'', CHR ''A'', CHR 0x80] ([], [])))))) = 0xFFFFFF80 \<and>
   snd (fst (SMCGetKeyFromIndex (scripted 0 5 (0, 9)) 9 0 ''.....''
          [(0, response 0xFFFFFF80 0 0 [])])) = [CHR 0xFF, CHR 0xFF, CHR 0xFF, CHR 0x80, CHR 0x00] \<and>
   unpack_key (pack_key [CHR ''A'', CHR ''A'', CHR ''A'', CHR 0x80])
     = [CHR 0xFF, CHR 0xFF, CHR 0xFF, CHR 0x80]"
  by (simp add: SMCReadKey_def SMCGetKeyFromIndex_def SMCCall_def spy_def scripted_def Let_def
      response_def pack_key_def unpack_key_def cstr_at_def char_of_def zero_SMCKeyData_t_def
      bit_simps)

section \<open>The two-phase read\<close>

text \<open>
  What \<open>SMCReadKey\<close> does, in terms of the answers of the collaborator to the two
  requests: \<open>(s1, out1)\<close> to the key-info request, \<open>(s2, out2)\<close> to the read-bytes
  request.
\<close>

lemma SMCReadKey_run:
  assumes first:
    "IOConnectCallStructMethod io conn 2
       (zero_SMCKeyData_t\<lparr>key := pack_key k, data8 := 9\<rparr>) 80 zero_SMCKeyData_t 80 w
     = ((s1, out1), w1)"
  and second:
    "IOConnectCallStructMethod io conn 2
       (zero_SMCKeyData_t\<lparr>key := pack_key k,
          keyInfo := \<lparr>dataSize = dataSize (keyInfo out1), dataType = 0, dataAttributes = 0\<rparr>,
          data8 := 5\<rparr>) 80 out1 80 w1
     = ((s2, out2), w2)"
  shows "SMCReadKey io conn k w =
     (if s1 \<noteq> kIOReturnSuccess io then ((s1, zero_SMCKeyData_t), w1)
      else if s2 \<noteq> kIOReturnSuccess io
        then ((s2, zero_SMCKeyData_t\<lparr>keyInfo :=
                \<lparr>dataSize = dataSize (keyInfo out1), dataType = dataType (keyInfo out1),
                 dataAttributes = 0\<rparr>\<rparr>), w2)
        else ((kIOReturnSuccess io, zero_SMCKeyData_t\<lparr>keyInfo :=
                \<lparr>dataSize = dataSize (keyInfo out1), dataType = dataType (keyInfo out1),
                 dataAttributes = 0\<rparr>, bytes := bytes out2\<rparr>), w2))"
  using first second
  by (simp add: SMCReadKey_def SMCCall_def Let_def KERNEL_INDEX_SMC_def
        SMC_CMD_READ_KEYINFO_def SMC_CMD_READ_BYTES_def sizeof_SMCKeyData_t_def
        zero_SMCKeyData_t_def)

lemma spy_kIOReturnSuccess: "kIOReturnSuccess (spy io) = kIOReturnSuccess io"
  by (simp add: spy_def)

lemma spy_IOConnectCallStructMethod:
  "IOConnectCallStructMethod io conn sel inp isz out osz w = (r, w') \<Longrightarrow>
   IOConnectCallStructMethod (spy io) conn sel inp isz out osz (w, calls) =
     (r, (w', calls @ [\<lparr>call_conn = conn, call_selector = sel, call_input = inp,
                         call_output = out\<rparr>]))"
  by (simp add: spy_def)

text \<open>
  C2. \<open>SMCReadKey\<close> issues exactly two exchanges when the first succeeds: the first with
  command selector 9 (read key info) and the packed key in an otherwise zero request, the
  second with selector 5 (read bytes), the same key and the \<open>dataSize\<close> the first
  response reported. When the first exchange reports a non-success status it issues that
  one exchange only. The status returned is that of the last exchange issued. The
  exchanges are those recorded by the spying collaborator, after the ones already recorded.
\<close>

theorem SMCReadKey_exchanges:
  assumes first:
    "IOConnectCallStructMethod io conn 2
       (zero_SMCKeyData_t\<lparr>key := pack_key k, data8 := 9\<rparr>) 80 zero_SMCKeyData_t 80 w
     = ((s1, out1), w1)"
  and second:
    "IOConnectCallStructMethod io conn 2
       (zero_SMCKeyData_t\<lparr>key := pack_key k,
          keyInfo := \<lparr>dataSize = dataSize (keyInfo out1), dataType = 0, dataAttributes = 0\<rparr>,
          data8 := 5\<rparr>) 80 out1 80 w1
     = ((s2, out2), w2)"
  shows "(s1 \<noteq> kIOReturnSuccess io \<longrightarrow>
            fst (fst (SMCReadKey (spy io) conn k (w, calls))) = s1 \<and>
            snd (snd (SMCReadKey (spy io) conn k (w, calls))) =
              calls @
              [\<lparr>call_conn = conn, call_selector = 2,
                call_input = zero_SMCKeyData_t\<lparr>key := pack_key k, data8 := 9\<rparr>,
                call_output = zero_SMCKeyData_t\<rparr>]) \<and>
         (s1 = kIOReturnSuccess io \<longrightarrow>
            fst (fst (SMCReadKey (spy io) conn k (w, calls))) = s2 \<and>
            snd (snd (SMCReadKey (spy io) conn k (w, calls))) =
              calls @
              [\<lparr>call_conn = conn, call_selector = 2,
                call_input = zero_SMCKeyData_t\<lparr>key := pack_key k, data8 := 9\<rparr>,
                call_output = zero_SMCKeyData_t\<rparr>,
               \<lparr>call_conn = conn, call_selector = 2,
                call_input = zero_SMCKeyData_t\<lparr>key := pack_key k,
                  keyInfo := \<lparr>dataSize = dataSize (keyInfo out1), dataType = 0,
                              dataAttributes = 0\<rparr>,
                  data8 := 5\<rparr>,
                call_output = out1\<rparr>])"
  using SMCReadKey_run [OF spy_IOConnectCallStructMethod [OF first]
          spy_IOConnectCallStructMethod [OF second]]
  by (simp add: spy_kIOReturnSuccess)

theorem SMCReadKey_exchanges_witness:
  "fst (fst (SMCReadKey (spy (scripted 0 5 (0, 9))) 9 ''TC0P''
        ([(0, response 0 4 1718383648 []), (0, response 0 0 0 [0x00, 0x00, 0x28, 0x42])], [])))
     = 0 \<and>
   map (data8 \<circ> call_input) (snd (snd (SMCReadKey (spy (scripted 0 5 (0, 9))) 9 ''TC0P''
        ([(0, response 0 4 1718383648 []), (0, response 0 0 0 [0x00, 0x00, 0x28, 0x42])], []))))
     = [9, 5] \<and>
   fst (fst (SMCReadKey (spy (scripted 0 5 (0, 9))) 9 ''TC0P''
        ([(7, response 0 4 1718383648 []), (0, response 0 0 0 [0x00, 0x00, 0x28, 0x42])], [])))
     = 7 \<and>
   map (data8 \<circ> call_input) (snd (snd (SMCReadKey (spy (scripted 0 5 (0, 9))) 9 ''TC0P''
        ([(7, response 0 4 1718383648 []), (0, response 0 0 0 [0x00, 0x00, 0x28, 0x42])], []))))
     = [9]"
  using SMCReadKey_exchanges [of "scripted 0 5 (0, 9)" 9 "''TC0P''"
          "[(0, response 0 4 1718383648 []), (0, response 0 0 0 [0x00, 0x00, 0x28, 0x42])]"
          0 "response 0 4 1718383648 []" "[(0, response 0 0 0 [0x00, 0x00, 0x28, 0x42])]"
          0 "response 0 0 0 [0x00, 0x00, 0x28, 0x42]" "[]" "[]"]
        SMCReadKey_exchanges [of "scripted 0 5 (0, 9)" 9 "''TC0P''"
          "[(7, response 0 4 1718383648 []), (0, response 0 0 0 [0x00, 0x00, 0x28, 0x42])]"
          7 "response 0 4 1718383648 []" "[(0, response 0 0 0 [0x00, 0x00, 0x28, 0x42])]"
          0 "response 0 0 0 [0x00, 0x00, 0x28, 0x42]" "[]" "[]"]
  by (simp add: scripted_def)

section \<open>Decoding a float\<close>

text \<open>The value of the bit pattern that \<open>memcpy\<close> leaves in the \<open>float\<close>.\<close>

lemma unat_memcpy_float:
  "unat (memcpy_float b) =
     unat (byte_at b 0) + 256 * unat (byte_at b 1) + 65536 * unat (byte_at b 2)
       + 16777216 * unat (byte_at b 3)"
proof -
  have "memcpy_float b =
      push_bit 24 (ucast (byte_at b 3)) OR push_bit 16 (ucast (byte_at b 2))
        OR push_bit 8 (ucast (byte_at b 1)) OR ucast (byte_at b 0)"
    by (simp add: memcpy_float_def ac_simps)
  then have "unat (memcpy_float b) =
      16777216 * unat (byte_at b 3) + 65536 * unat (byte_at b 2) + 256 * unat (byte_at b 1)
        + unat (byte_at b 0)"
    by (simp only: unat_be32)
  then show ?thesis
    by simp
qed

text \<open>A read from the scripted collaborator whose two exchanges succeed.\<close>

lemma scripted_read:
  "SMCReadKey (scripted m d oc) conn k ((0, r1) # (0, r2) # rest) =
     ((0, zero_SMCKeyData_t\<lparr>keyInfo :=
            \<lparr>dataSize = dataSize (keyInfo r1), dataType = dataType (keyInfo r1),
             dataAttributes = 0\<rparr>, bytes := bytes r2\<rparr>), rest)"
  by (simp add: SMCReadKey_run [where ?s1.0 = 0 and ?out1.0 = r1 and ?s2.0 = 0 and ?out2.0 = r2
        and ?w1.0 = "(0, r2) # rest" and ?w2.0 = rest] scripted_def)

text \<open>
  C3. If \<open>SMCReadKey\<close> succeeds, the \<open>dataType\<close> of the value read is the float tag
  1718383648 (the packing of the type code \<open>flt\<close> followed by a space) and its
  \<open>dataSize\<close> is at least 4, then \<open>SMCGetFloatValue\<close> returns the widening of the
  \<open>float\<close> whose bit pattern is the first 4 payload bytes as they lie in memory (byte 0
  least significant), unchanged.
\<close>

theorem SMCGetFloatValue_float:
  assumes "SMCReadKey io conn k w = ((st, val), w')"
    and "st = kIOReturnSuccess io"
    and "dataType (keyInfo val) = 1718383648"
    and "4 \<le> unat (dataSize (keyInfo val))"
  shows "SMCGetFloatValue io conn k w = (double_of_float (memcpy_float (bytes val)), w') \<and>
         unat (memcpy_float (bytes val)) =
           unat (byte_at (bytes val) 0) + 256 * unat (byte_at (bytes val) 1)
             + 65536 * unat (byte_at (bytes val) 2) + 16777216 * unat (byte_at (bytes val) 3) \<and>
         pack_key ''flt '' = 1718383648"
  using assms
  by (simp add: SMCGetFloatValue_def unat_memcpy_float pack_key_def cstr_at_def)

theorem SMCGetFloatValue_float_witness:
  "SMCGetFloatValue (scripted 0 5 (0, 9)) 9 ''TC0P''
     [(0, response 0 4 1718383648 []), (0, response 0 0 0 [0x00, 0x00, 0x28, 0x42])]
     = (double_of_float 0x42280000, [])"
  using SMCGetFloatValue_float [of "scripted 0 5 (0, 9)" 9 "''TC0P''"
      "[(0, response 0 4 1718383648 []), (0, response 0 0 0 [0x00, 0x00, 0x28, 0x42])]"
      0 "zero_SMCKeyData_t\<lparr>keyInfo :=
            \<lparr>dataSize = 4, dataType = 1718383648, dataAttributes = 0\<rparr>,
          bytes := SMCBytes_of [0x00, 0x00, 0x28, 0x42]\<rparr>" "[]"]
  by (simp add: scripted_read response_def memcpy_float_def byte_at_def Rep_SMCBytes_of)
     (simp add: scripted_def)

text \<open>
  C4. \<open>SMCGetFloatValue\<close> returns 0.0 when the read reports a non-success status and
  when the read succeeds with a \<open>dataType\<close> other than the float tag 1718383648. Its
  result is a \<open>double\<close> and the state of the collaborator: it has no way of reporting
  the failure.
\<close>

theorem SMCGetFloatValue_default:
  assumes "SMCReadKey io conn k w = ((st, val), w')"
    and "st \<noteq> kIOReturnSuccess io \<or> dataType (keyInfo val) \<noteq> 1718383648"
  shows "SMCGetFloatValue io conn k w = (double_of_float 0, w')"
  using assms
  by (auto simp add: SMCGetFloatValue_def double_0_def)

theorem SMCGetFloatValue_default_witness:
  "SMCGetFloatValue (scripted 0 5 (0, 9)) 9 ''TC0P'' [] = (double_of_float 0, []) \<and>
   SMCGetFloatValue (scripted 0 5 (0, 9)) 9 ''TC0P''
     [(0, response 0 4 1969829428 []), (0, response 0 0 0 [0x00, 0x00, 0x28, 0x42])]
     = (double_of_float 0, [])"
  using SMCGetFloatValue_default [of "scripted 0 5 (0, 9)" 9 "''TC0P''" "[]"
      1 zero_SMCKeyData_t "[]"]
    SMCGetFloatValue_default [of "scripted 0 5 (0, 9)" 9 "''TC0P''"
      "[(0, response 0 4 1969829428 []), (0, response 0 0 0 [0x00, 0x00, 0x28, 0x42])]"
      0 "zero_SMCKeyData_t\<lparr>keyInfo :=
            \<lparr>dataSize = 4, dataType = 1969829428, dataAttributes = 0\<rparr>,
          bytes := SMCBytes_of [0x00, 0x00, 0x28, 0x42]\<rparr>" "[]"]
  by (simp add: scripted_read response_def)
     (simp add: SMCReadKey_def SMCCall_def Let_def scripted_def)

text \<open>The response buffer that \<open>SMCReadKey\<close> hands to its first exchange is all zero.\<close>

lemma SMCReadKey_first_buffer:
  "call_output (hd (snd (snd (SMCReadKey (spy io) conn k (w, []))))) = zero_SMCKeyData_t"
proof -
  obtain s1 out1 w1 where first:
    "IOConnectCallStructMethod io conn 2
       (zero_SMCKeyData_t\<lparr>key := pack_key k, data8 := 9\<rparr>) 80 zero_SMCKeyData_t 80 w
     = ((s1, out1), w1)"
    by (metis surj_pair)
  obtain s2 out2 w2 where second:
    "IOConnectCallStructMethod io conn 2
       (zero_SMCKeyData_t\<lparr>key := pack_key k,
          keyInfo := \<lparr>dataSize = dataSize (keyInfo out1), dataType = 0, dataAttributes = 0\<rparr>,
          data8 := 5\<rparr>) 80 out1 80 w1
     = ((s2, out2), w2)"
    by (metis surj_pair)
  show ?thesis
    using SMCReadKey_run [OF spy_IOConnectCallStructMethod [OF first, of "[]"]
            spy_IOConnectCallStructMethod [OF second]]
    by (simp add: spy_kIOReturnSuccess)
qed

text \<open>
  C10. \<open>SMCGetFloatValue\<close> does not look at \<open>dataSize\<close>: after any successful read
  whose \<open>dataType\<close> is the float tag it returns the float made of the first 4 payload
  bytes, whatever \<open>dataSize\<close> is. The payload is the 32-byte array of the value, so
  bytes 0 to 3 exist, and the response buffer was zeroed before the first exchange.
\<close>

theorem SMCGetFloatValue_any_dataSize:
  assumes "SMCReadKey io conn k w = ((st, val), w')"
    and "st = kIOReturnSuccess io"
    and "dataType (keyInfo val) = 1718383648"
  shows "SMCGetFloatValue io conn k w = (double_of_float (memcpy_float (bytes val)), w') \<and>
         length (Rep_SMCBytes_t (bytes val)) = 32 \<and>
         call_output (hd (snd (snd (SMCReadKey (spy io) conn k (w, []))))) = zero_SMCKeyData_t"
  using assms
  by (simp add: SMCGetFloatValue_def length_Rep_SMCBytes_t SMCReadKey_first_buffer)

theorem SMCGetFloatValue_any_dataSize_witness:
  "SMCGetFloatValue (scripted 0 5 (0, 9)) 9 ''TC0P''
     [(0, response 0 0 1718383648 []), (0, response 0 0 0 [0x00, 0x00, 0x28, 0x42])]
     = (double_of_float 0x42280000, []) \<and>
   SMCGetFloatValue (scripted 0 5 (0, 9)) 9 ''TC0P''
     [(0, response 0 0 1718383648 []), (0, zero_SMCKeyData_t)]
     = (double_of_float 0, [])"
proof -
  have ok: "0 = kIOReturnSuccess (scripted 0 5 (0, 9))"
    by (simp add: scripted_def)
  have r1: "SMCReadKey (scripted 0 5 (0, 9)) 9 ''TC0P''
      [(0, response 0 0 1718383648 []), (0, response 0 0 0 [0x00, 0x00, 0x28, 0x42])]
    = ((0, zero_SMCKeyData_t\<lparr>keyInfo :=
            \<lparr>dataSize = 0, dataType = 1718383648, dataAttributes = 0\<rparr>,
          bytes := SMCBytes_of [0x00, 0x00, 0x28, 0x42]\<rparr>), [])"
    by (simp add: scripted_read response_def)
  have r2: "SMCReadKey (scripted 0 5 (0, 9)) 9 ''TC0P''
      [(0, response 0 0 1718383648 []), (0, zero_SMCKeyData_t)]
    = ((0, zero_SMCKeyData_t\<lparr>keyInfo :=
            \<lparr>dataSize = 0, dataType = 1718383648, dataAttributes = 0\<rparr>,
          bytes := zero_SMCBytes_t\<rparr>), [])"
    by (simp add: scripted_read response_def) (simp add: zero_SMCKeyData_t_def)
  show ?thesis
    using SMCGetFloatValue_any_dataSize [OF r1 ok] SMCGetFloatValue_any_dataSize [OF r2 ok]
    by (simp add: memcpy_float_def byte_at_def Rep_SMCBytes_of Rep_zero_SMCBytes_t)
qed

section \<open>Failed reads\<close>

text \<open>
  C8 as stated fails: when the second exchange fails, the value handed back carries the
  \<open>dataSize\<close> and \<open>dataType\<close> of the first response. Here the first exchange succeeds
  reporting 4 bytes of type float and the second fails with status 7.
\<close>

theorem SMCReadKey_partial_value:
  "fst (fst (SMCReadKey (scripted 0 5 (0, 9)) 9 ''TC0P''
      [(0, response 0 4 1718383648 []), (7, response 0 0 0 [0x00, 0x00, 0x28, 0x42])])) = 7 \<and>
   7 \<noteq> kIOReturnSuccess (scripted 0 5 (0, 9)) \<and>
   dataSize (keyInfo (snd (fst (SMCReadKey (scripted 0 5 (0, 9)) 9 ''TC0P''
      [(0, response 0 4 1718383648 []), (7, response 0 0 0 [0x00, 0x00, 0x28, 0x42])])))) = 4 \<and>
   dataType (keyInfo (snd (fst (SMCReadKey (scripted 0 5 (0, 9)) 9 ''TC0P''
      [(0, response 0 4 1718383648 []), (7, response 0 0 0 [0x00, 0x00, 0x28, 0x42])]))))
     = 1718383648 \<and>
   snd (fst (SMCReadKey (scripted 0 5 (0, 9)) 9 ''TC0P''
      [(0, response 0 4 1718383648 []), (7, response 0 0 0 [0x00, 0x00, 0x28, 0x42])]))
     \<noteq> zero_SMCKeyData_t"
  by (simp add: SMCReadKey_def SMCCall_def Let_def scripted_def response_def
        zero_SMCKeyData_t_def)

text \<open>
  C8, amended. A non-success status from either exchange ends the read with that status.
  When the first exchange fails, the value handed back is all zero. When the second
  fails, the value is zero except for \<open>dataSize\<close> and \<open>dataType\<close>, which are those of
  the first response; its payload is all zero, whatever the failed exchange left in the
  response buffer.
\<close>

theorem SMCReadKey_failure:
  assumes first:
    "IOConnectCallStructMethod io conn 2
       (zero_SMCKeyData_t\<lparr>key := pack_key k, data8 := 9\<rparr>) 80 zero_SMCKeyData_t 80 w
     = ((s1, out1), w1)"
  and second:
    "IOConnectCallStructMethod io conn 2
       (zero_SMCKeyData_t\<lparr>key := pack_key k,
          keyInfo := \<lparr>dataSize = dataSize (keyInfo out1), dataType = 0, dataAttributes = 0\<rparr>,
          data8 := 5\<rparr>) 80 out1 80 w1
     = ((s2, out2), w2)"
  shows "(s1 \<noteq> kIOReturnSuccess io \<longrightarrow>
            fst (SMCReadKey io conn k w) = (s1, zero_SMCKeyData_t)) \<and>
         (s1 = kIOReturnSuccess io \<and> s2 \<noteq> kIOReturnSuccess io \<longrightarrow>
            fst (SMCReadKey io conn k w) =
              (s2, zero_SMCKeyData_t\<lparr>keyInfo :=
                     \<lparr>dataSize = dataSize (keyInfo out1), dataType = dataType (keyInfo out1),
                      dataAttributes = 0\<rparr>\<rparr>) \<and>
            bytes (snd (fst (SMCReadKey io conn k w))) = zero_SMCBytes_t)"
  using SMCReadKey_run [OF first second]
  by (simp add: zero_SMCKeyData_t_def)

theorem SMCReadKey_failure_witness:
  "fst (SMCReadKey (scripted 0 5 (0, 9)) 9 ''TC0P''
      [(7, response 0 4 1718383648 [0x01]), (0, response 0 0 0 [0x00, 0x00, 0x28, 0x42])])
     = (7, zero_SMCKeyData_t) \<and>
   fst (SMCReadKey (scripted 0 5 (0, 9)) 9 ''TC0P''
      [(0, response 0 4 1718383648 []), (7, response 0 0 0 [0x00, 0x00, 0x28, 0x42])])
     = (7, zero_SMCKeyData_t\<lparr>keyInfo :=
             \<lparr>dataSize = 4, dataType = 1718383648, dataAttributes = 0\<rparr>\<rparr>)"
  using SMCReadKey_failure [of "scripted 0 5 (0, 9)" 9 "''TC0P''"
      "[(7, response 0 4 1718383648 [0x01]), (0, response 0 0 0 [0x00, 0x00, 0x28, 0x42])]"
      7 "response 0 4 1718383648 [0x01]" "[(0, response 0 0 0 [0x00, 0x00, 0x28, 0x42])]"
      0 "response 0 0 0 [0x00, 0x00, 0x28, 0x42]" "[]"]
    SMCReadKey_failure [of "scripted 0 5 (0, 9)" 9 "''TC0P''"
      "[(0, response 0 4 1718383648 []), (7, response 0 0 0 [0x00, 0x00, 0x28, 0x42])]"
      0 "response 0 4 1718383648 []" "[(7, response 0 0 0 [0x00, 0x00, 0x28, 0x42])]"
      7 "response 0 0 0 [0x00, 0x00, 0x28, 0x42]" "[]"]
  by (simp add: scripted_def) (simp add: response_def)

section \<open>Enumeration\<close>

lemma bit31_iff: "bit (w :: 32 word) 31 \<longleftrightarrow> 2147483648 \<le> unat w"
proof -
  have lt: "unat w < 2 ^ LENGTH(32)" by (rule unsigned_less)
  have "bit w 31 \<longleftrightarrow> bit (unat w) 31"
    by (simp add: bit_unsigned_iff)
  also have "\<dots> \<longleftrightarrow> odd (unat w div 2147483648)"
    by (simp add: bit_iff_odd)
  also have "\<dots> \<longleftrightarrow> 2147483648 \<le> unat w"
  proof (cases "2147483648 \<le> unat w")
    case True
    with lt have "unat w div 2147483648 = 1" by simp
    with True show ?thesis by simp
  next
    case False
    then have "unat w div 2147483648 = 0" by simp
    with False show ?thesis by simp
  qed
  finally show ?thesis .
qed

text \<open>The value of a 32-bit \<open>int\<close> from its bits read as unsigned.\<close>

lemma sint_32:
  "sint (w :: 32 word) =
     (if unat w < 2147483648 then int (unat w) else int (unat w) - 4294967296)"
proof -
  have "sint w = take_bit 32 (uint w) - 2 ^ 32 * of_bool (bit (uint w) 31)"
    by (simp add: sint_uint signed_take_bit_eq_take_bit_minus)
  moreover have "take_bit 32 (uint w) = uint w"
  proof -
    have "uint w < 2 ^ LENGTH(32)" by (rule unsigned_less)
    then show ?thesis by (simp add: take_bit_int_eq_self)
  qed
  moreover have "bit (uint w) 31 \<longleftrightarrow> 2147483648 \<le> unat w"
    using bit31_iff [of w] by (simp add: bit_unsigned_iff)
  ultimately show ?thesis
    by (simp add: not_less)
qed

text \<open>
  C5 as stated fails: \<open>SMCGetKeyCount\<close> returns an \<open>int\<close>, and for a payload whose first
  byte is 128 or more that \<open>int\<close> is negative. With the payload \<open>0xFF 0xFF 0xFF 0xFF\<close> the
  big-endian unsigned reading is 4294967295 and the function returns -1.
\<close>

theorem SMCGetKeyCount_negative:
  "sint (fst (SMCGetKeyCount (scripted 0 5 (0, 9)) 9
      [(0, response 0 4 1969828658 []), (0, response 0 0 0 [0xFF, 0xFF, 0xFF, 0xFF])])) = - 1 \<and>
   sint (fst (SMCGetKeyCount (scripted 0 5 (0, 9)) 9
      [(0, response 0 4 1969828658 []), (0, response 0 0 0 [0xFF, 0xFF, 0xFF, 0xFF])]))
     \<noteq> 16777216 * 255 + 65536 * 255 + 256 * 255 + 255"
  by (simp add: SMCGetKeyCount_def scripted_read response_def byte_at_def Rep_SMCBytes_of)
     (simp add: scripted_def)

text \<open>
  C5, amended. \<open>SMCGetKeyCount\<close> reads the key \<open>#KEY\<close>. When the read reports a
  non-success status it returns 0. On success it returns the \<open>int\<close> whose 32 bits are the
  first 4 payload bytes, first byte most significant: the big-endian unsigned reading of
  the bytes when the first byte is below 128 (so \<open>0x00 0x00 0x00 0x2A\<close> yields 42), and
  that reading minus 4294967296 otherwise.
\<close>

theorem SMCGetKeyCount_value:
  assumes "SMCReadKey io conn ''#KEY'' w = ((st, val), w')"
  shows "(st \<noteq> kIOReturnSuccess io \<longrightarrow> SMCGetKeyCount io conn w = (0, w')) \<and>
         (st = kIOReturnSuccess io \<longrightarrow>
            snd (SMCGetKeyCount io conn w) = w' \<and>
            unat (fst (SMCGetKeyCount io conn w)) =
              16777216 * unat (byte_at (bytes val) 0) + 65536 * unat (byte_at (bytes val) 1)
                + 256 * unat (byte_at (bytes val) 2) + unat (byte_at (bytes val) 3) \<and>
            sint (fst (SMCGetKeyCount io conn w)) =
              (if unat (byte_at (bytes val) 0) < 128
               then int (16777216 * unat (byte_at (bytes val) 0)
                      + 65536 * unat (byte_at (bytes val) 1)
                      + 256 * unat (byte_at (bytes val) 2) + unat (byte_at (bytes val) 3))
               else int (16777216 * unat (byte_at (bytes val) 0)
                      + 65536 * unat (byte_at (bytes val) 1)
                      + 256 * unat (byte_at (bytes val) 2) + unat (byte_at (bytes val) 3))
                    - 4294967296))"
proof -
  let ?b0 = "byte_at (bytes val) 0" and ?b1 = "byte_at (bytes val) 1"
  let ?b2 = "byte_at (bytes val) 2" and ?b3 = "byte_at (bytes val) 3"
  let ?c = "push_bit 24 (ucast ?b0) OR push_bit 16 (ucast ?b1) OR push_bit 8 (ucast ?b2)
              OR ucast ?b3 :: 32 word"
  let ?n = "16777216 * unat ?b0 + 65536 * unat ?b1 + 256 * unat ?b2 + unat ?b3"
  have fail: "st \<noteq> kIOReturnSuccess io \<Longrightarrow> SMCGetKeyCount io conn w = (0, w')"
    using assms by (simp add: SMCGetKeyCount_def)
  have good: "st = kIOReturnSuccess io \<Longrightarrow> SMCGetKeyCount io conn w = (?c, w')"
    using assms by (simp add: SMCGetKeyCount_def Let_def)
  have n: "unat ?c = ?n"
    by (rule unat_be32)
  have "?n < 2147483648 \<longleftrightarrow> unat ?b0 < 128"
    using unat_byte_lt [of ?b1] unat_byte_lt [of ?b2] unat_byte_lt [of ?b3] by arith
  then have s: "sint ?c = (if unat ?b0 < 128 then int ?n else int ?n - 4294967296)"
    by (simp only: sint_32 n)
  show ?thesis
    using fail good n s by simp
qed

theorem SMCGetKeyCount_value_witness:
  "SMCGetKeyCount (scripted 0 5 (0, 9)) 9
      [(0, response 0 4 1969828658 []), (0, response 0 0 0 [0x00, 0x00, 0x00, 0x2A])] = (42, []) \<and>
   sint (fst (SMCGetKeyCount (scripted 0 5 (0, 9)) 9
      [(0, response 0 4 1969828658 []), (0, response 0 0 0 [0x00, 0x00, 0x00, 0x2A])])) = 42 \<and>
   SMCGetKeyCount (scripted 0 5 (0, 9)) 9 [] = (0, [])"
proof -
  have r1: "SMCReadKey (scripted 0 5 (0, 9)) 9 ''#KEY''
      [(0, response 0 4 1969828658 []), (0, response 0 0 0 [0x00, 0x00, 0x00, 0x2A])]
    = ((0, zero_SMCKeyData_t\<lparr>keyInfo :=
            \<lparr>dataSize = 4, dataType = 1969828658, dataAttributes = 0\<rparr>,
          bytes := SMCBytes_of [0x00, 0x00, 0x00, 0x2A]\<rparr>), [])"
    by (simp add: scripted_read response_def)
  have r2: "SMCReadKey (scripted 0 5 (0, 9)) 9 ''#KEY'' [] = ((1, zero_SMCKeyData_t), [])"
    by (simp add: SMCReadKey_def SMCCall_def Let_def scripted_def)
  have ok: "kIOReturnSuccess (scripted 0 5 (0, 9)) = 0"
    by (simp add: scripted_def)
  have u: "\<And>c :: 32 word. unat c = 42 \<Longrightarrow> c = 42"
    by (metis of_nat_numeral of_nat_unat ucast_id)
  show ?thesis
    using SMCGetKeyCount_value [OF r1] SMCGetKeyCount_value [OF r2]
    by (simp add: ok byte_at_def Rep_SMCBytes_of prod_eq_iff u)
qed

text \<open>
  C6. \<open>SMCGetKeyFromIndex\<close> issues one exchange: selector 8 (read index) and the index in
  \<open>data32\<close> of an otherwise zero request. On success it stores in the buffer the four
  characters unpacked from the key field of the response, first character from the most
  significant byte, and a NUL after them; the rest of the buffer stays. On a non-success
  status it returns that status and leaves the buffer as it was.
\<close>

theorem SMCGetKeyFromIndex_exchange:
  assumes call:
    "IOConnectCallStructMethod io conn 2
       (zero_SMCKeyData_t\<lparr>data8 := 8, data32 := index\<rparr>) 80 zero_SMCKeyData_t 80 w
     = ((st, out), w')"
  and buf: "5 \<le> length outputKey"
  shows "snd (snd (SMCGetKeyFromIndex (spy io) conn index outputKey (w, calls))) =
           calls @ [\<lparr>call_conn = conn, call_selector = 2,
                      call_input = zero_SMCKeyData_t\<lparr>data8 := 8, data32 := index\<rparr>,
                      call_output = zero_SMCKeyData_t\<rparr>] \<and>
         fst (fst (SMCGetKeyFromIndex (spy io) conn index outputKey (w, calls))) = st \<and>
         (st = kIOReturnSuccess io \<longrightarrow>
            snd (fst (SMCGetKeyFromIndex (spy io) conn index outputKey (w, calls))) =
              unpack_key (key out) @ [CHR 0x00] @ drop 5 outputKey) \<and>
         (st \<noteq> kIOReturnSuccess io \<longrightarrow>
            snd (fst (SMCGetKeyFromIndex (spy io) conn index outputKey (w, calls))) = outputKey) \<and>
         map of_char (unpack_key (key out)) =
           [unat (key out) div 16777216 mod 256, unat (key out) div 65536 mod 256,
            unat (key out) div 256 mod 256, unat (key out) mod 256 :: nat]"
proof -
  from buf obtain c0 c1 c2 c3 c4 rest where b: "outputKey = c0 # c1 # c2 # c3 # c4 # rest"
    by (auto simp: Suc_le_length_iff numeral_eq_Suc)
  show ?thesis
    using spy_IOConnectCallStructMethod [OF call, of calls]
    by (simp add: SMCGetKeyFromIndex_def SMCCall_def Let_def KERNEL_INDEX_SMC_def
        SMC_CMD_READ_INDEX_def sizeof_SMCKeyData_t_def spy_kIOReturnSuccess unpack_key_codes b)
       (simp add: unpack_key_def)
qed

theorem SMCGetKeyFromIndex_exchange_witness:
  "fst (SMCGetKeyFromIndex (spy (scripted 0 5 (0, 9))) 9 0 ''.....''
      ([(0, response 0x234B4559 0 0 [])], [])) = (0, ''#KEY'' @ [CHR 0x00]) \<and>
   map (\<lambda>c. (data8 (call_input c), data32 (call_input c)))
     (snd (snd (SMCGetKeyFromIndex (spy (scripted 0 5 (0, 9))) 9 0 ''.....''
      ([(0, response 0x234B4559 0 0 [])], [])))) = [(8, 0)]"
proof -
  have call: "IOConnectCallStructMethod (scripted 0 5 (0, 9)) 9 2
       (zero_SMCKeyData_t\<lparr>data8 := 8, data32 := 0\<rparr>) 80 zero_SMCKeyData_t 80
       [(0, response 0x234B4559 0 0 [])]
     = ((0, response 0x234B4559 0 0 []), [])"
    by (simp add: scripted_def)
  have buf: "5 \<le> length ''.....''"
    by simp
  have ok: "kIOReturnSuccess (scripted 0 5 (0, 9)) = 0"
    by (simp add: scripted_def)
  have k: "unpack_key (key (response 0x234B4559 0 0 [])) = ''#KEY''"
    by (simp add: response_def unpack_key_def char_of_def bit_simps)
  show ?thesis
    using SMCGetKeyFromIndex_exchange [OF call buf, of "[]"]
    by (simp add: ok k prod_eq_iff)
qed

section \<open>Opening the connection\<close>

text \<open>
  C7. \<open>SMCOpen\<close> returns 0 when the service-matching call reports a non-success status,
  when the iterator yields no device (0), and when the service-open call reports a
  non-success status, whatever that call stored in the handle; otherwise it returns the
  handle the service-open call stored.
\<close>

theorem SMCOpen_handle:
  assumes "IOServiceMatching io ''AppleSMC'' w = (dict, w1)"
    and "IOServiceGetMatchingServices io (kIOMainPortDefault io) dict w1 = ((r1, it), w2)"
    and "IOIteratorNext io it w2 = (device, w3)"
    and "IOObjectRelease io it w3 = (x, w4)"
    and "IOServiceOpen io device (mach_task_self io) 0 0 w4 = ((r2, conn), w5)"
  shows "(r1 \<noteq> kIOReturnSuccess io \<longrightarrow> fst (SMCOpen io w) = 0) \<and>
         (r1 = kIOReturnSuccess io \<and> device = 0 \<longrightarrow> fst (SMCOpen io w) = 0) \<and>
         (r1 = kIOReturnSuccess io \<and> device \<noteq> 0 \<and> r2 \<noteq> kIOReturnSuccess io \<longrightarrow>
            fst (SMCOpen io w) = 0) \<and>
         (r1 = kIOReturnSuccess io \<and> device \<noteq> 0 \<and> r2 = kIOReturnSuccess io \<longrightarrow>
            fst (SMCOpen io w) = conn)"
  using assms
  by (simp add: SMCOpen_def Let_def split: prod.splits)

theorem SMCOpen_handle_witness:
  "fst (SMCOpen (scripted 0 5 (0, 9)) []) = 9 \<and>
   fst (SMCOpen (scripted 3 5 (0, 9)) []) = 0 \<and>
   fst (SMCOpen (scripted 0 0 (0, 9)) []) = 0 \<and>
   fst (SMCOpen (scripted 0 5 (3, 9)) []) = 0"
proof -
  have a: "fst (SMCOpen (scripted 0 5 (0, 9)) []) = 9"
    using SMCOpen_handle [of "scripted 0 5 (0, 9)" "[]" "0x1000" "[]" 0 "0x0B03" "[]" 5 "[]" 0 "[]"
        0 9 "[]"]
    by (simp add: scripted_def)
  have b: "fst (SMCOpen (scripted 3 5 (0, 9)) []) = 0"
    using SMCOpen_handle [of "scripted 3 5 (0, 9)" "[]" "0x1000" "[]" 3 "0x0B03" "[]" 5 "[]" 0 "[]"
        0 9 "[]"]
    by (simp add: scripted_def)
  have c: "fst (SMCOpen (scripted 0 0 (0, 9)) []) = 0"
    using SMCOpen_handle [of "scripted 0 0 (0, 9)" "[]" "0x1000" "[]" 0 "0x0B03" "[]" 0 "[]" 0 "[]"
        0 9 "[]"]
    by (simp add: scripted_def)
  have d: "fst (SMCOpen (scripted 0 5 (3, 9)) []) = 0"
    using SMCOpen_handle [of "scripted 0 5 (3, 9)" "[]" "0x1000" "[]" 0 "0x0B03" "[]" 5 "[]" 0 "[]"
        3 9 "[]"]
    by (simp add: scripted_def)
  from a b c d show ?thesis by simp
qed

section \<open>The second copy\<close>

text \<open>
  C9. Each function of src/smc.c (\<open>SMCOpen\<close>, \<open>SMCClose\<close>, \<open>SMCCall\<close>, \<open>SMCReadKey\<close>,
  \<open>SMCGetFloatValue\<close>) is the same function as its counterpart in
  src/internal/app/smc.c: for every collaborator, state, handle, key and buffer contents
  it returns the same results and leaves the same state.
\<close>

theorem smc_dup_same:
  "SMCOpen_dup = SMCOpen \<and> SMCClose_dup = SMCClose \<and> SMCCall_dup = SMCCall \<and>
   SMCReadKey_dup = SMCReadKey \<and> SMCGetFloatValue_dup = SMCGetFloatValue"
proof -
  have o: "SMCOpen_dup = SMCOpen"
    by (intro ext) (simp add: SMCOpen_dup_def SMCOpen_def)
  have c: "SMCClose_dup = SMCClose"
    by (intro ext) (simp add: SMCClose_dup_def SMCClose_def)
  have l: "SMCCall_dup = SMCCall"
    by (intro ext) (simp add: SMCCall_dup_def SMCCall_def)
  have r: "SMCReadKey_dup = SMCReadKey"
    by (intro ext, unfold SMCReadKey_dup_def SMCReadKey_def l, rule refl)
  have f: "SMCGetFloatValue_dup = SMCGetFloatValue"
    by (intro ext, unfold SMCGetFloatValue_dup_def SMCGetFloatValue_def r, rule refl)
  from o c l r f show ?thesis by simp
qed

end
